theory Spec2Isabelle
  imports Complex_Main
begin

section \<open>JavaScript values\<close>

text \<open>
  The library reads device lists and channel messages that come out of \<^verbatim>\<open>JSON.parse\<close>
  and copies what it finds into the device records without any check, so a field of a
  record holds an arbitrary JavaScript value: a JSON value, or \<^verbatim>\<open>undefined\<close> when the
  property was missing. Numbers are the finite doubles, each of which is a rational;
  the code only copies and compares them. An object is its list of own properties;
  a property is looked up by its first entry.
\<close>

datatype jsval =
    JUndefined
  | JNull
  | JBool bool
  | JNum rat
  | JStr string
  | JArr "jsval list"
  | JObj "(string \<times> jsval) list"

text \<open>
  What a JavaScript computation can throw, and what a promise can be rejected with:
  the built-in errors the code can run into, a plain value (\<^verbatim>\<open>Promise.reject(v)\<close>),
  and an error object handed over by the transport.
\<close>

datatype exn =
    TypeError
  | ReferenceError string
  | SyntaxError
  | Value jsval
  | TransportError string

datatype promise = Pending | Resolved | Rejected exn

text \<open>
  \<^verbatim>\<open>v.k\<close>: reading a property of \<^verbatim>\<open>undefined\<close> or \<^verbatim>\<open>null\<close> throws a TypeError;
  an object gives its own property or \<^verbatim>\<open>undefined\<close>; of the properties the source
  reads, only \<^verbatim>\<open>length\<close> exists on strings and arrays (none of the names it reads is
  inherited from a prototype).
\<close>

fun property :: "jsval \<Rightarrow> string \<Rightarrow> exn + jsval" where
  "property JUndefined k = Inl TypeError"
| "property JNull k = Inl TypeError"
| "property (JObj kvs) k = Inr (case map_of kvs k of None \<Rightarrow> JUndefined | Some v \<Rightarrow> v)"
| "property (JStr s) k = Inr (if k = ''length'' then JNum (of_nat (length s)) else JUndefined)"
| "property (JArr xs) k = Inr (if k = ''length'' then JNum (of_nat (length xs)) else JUndefined)"
| "property (JBool b) k = Inr JUndefined"
| "property (JNum n) k = Inr JUndefined"

text \<open>Truthiness, as \<^verbatim>\<open>&&\<close> and \<^verbatim>\<open>if\<close> test it.\<close>

fun truthy :: "jsval \<Rightarrow> bool" where
  "truthy JUndefined = False"
| "truthy JNull = False"
| "truthy (JBool b) = b"
| "truthy (JNum n) = (n \<noteq> 0)"
| "truthy (JStr s) = (s \<noteq> [])"
| "truthy (JArr xs) = True"
| "truthy (JObj kvs) = True"

fun typeof :: "jsval \<Rightarrow> string" where
  "typeof JUndefined = ''undefined''"
| "typeof JNull = ''object''"
| "typeof (JBool b) = ''boolean''"
| "typeof (JNum n) = ''number''"
| "typeof (JStr s) = ''string''"
| "typeof (JArr xs) = ''object''"
| "typeof (JObj kvs) = ''object''"

text \<open>
  \<^verbatim>\<open>a === b\<close>. Primitives compare by value. Objects and arrays compare by reference:
  the two sides the source compares always come out of two different calls of
  \<^verbatim>\<open>JSON.parse\<close> (or one side is a string literal), so two objects are never the same.
\<close>

fun strict_eq :: "jsval \<Rightarrow> jsval \<Rightarrow> bool" where
  "strict_eq JUndefined b = (b = JUndefined)"
| "strict_eq JNull b = (b = JNull)"
| "strict_eq (JBool x) b = (b = JBool x)"
| "strict_eq (JNum x) b = (b = JNum x)"
| "strict_eq (JStr x) b = (b = JStr x)"
| "strict_eq (JArr xs) b = False"
| "strict_eq (JObj kvs) b = False"

text \<open>\<^verbatim>\<open>v > 0\<close>, which the source applies to the length of a string only.\<close>

fun greater_zero :: "jsval \<Rightarrow> bool" where
  "greater_zero (JNum n) = (0 < n)"
| "greater_zero v = False"

text \<open>
  A read that may throw, followed by the rest of the computation: \<open>fail\<close> says what
  the enclosing function does with the exception.
\<close>

definition reading :: "exn + 'a \<Rightarrow> (exn \<Rightarrow> 'r) \<Rightarrow> ('a \<Rightarrow> 'r) \<Rightarrow> 'r" where
  "reading m fail k = (case m of Inl e \<Rightarrow> fail e | Inr x \<Rightarrow> k x)"

section \<open>The device record: class CieloHVAC\<close>

text \<open>
  Each private field is named by its accessor: \<open>getPower\<close> is \<^verbatim>\<open>#power\<close>, and so on.
\<close>

record CieloHVAC =
  getPower :: jsval
  getTemperature :: jsval
  getMode :: jsval
  getFanSpeed :: jsval
  getRoomTemperature :: jsval
  getDeviceName :: jsval
  getMacAddress :: jsval
  getApplianceID :: jsval
  getFwVersion :: jsval

definition DEFAULT_POWER :: jsval where "DEFAULT_POWER = JStr ''off''"
definition DEFAULT_MODE :: jsval where "DEFAULT_MODE = JStr ''auto''"
definition DEFAULT_FAN :: jsval where "DEFAULT_FAN = JStr ''auto''"
definition DEFAULT_TEMPERATURE :: jsval where "DEFAULT_TEMPERATURE = JNum 75"

text \<open>The constructor: the field initialisers, then the four assignments.\<close>

definition new_CieloHVAC :: "jsval \<Rightarrow> jsval \<Rightarrow> jsval \<Rightarrow> jsval \<Rightarrow> CieloHVAC" where
  "new_CieloHVAC macAddress deviceName applianceID fwVersion =
     \<lparr> getPower = DEFAULT_POWER,
       getTemperature = DEFAULT_TEMPERATURE,
       getMode = DEFAULT_MODE,
       getFanSpeed = DEFAULT_FAN,
       getRoomTemperature = DEFAULT_TEMPERATURE,
       getDeviceName = deviceName,
       getMacAddress = macAddress,
       getApplianceID = applianceID,
       getFwVersion = fwVersion \<rparr>"

definition updateState :: "CieloHVAC \<Rightarrow> jsval \<Rightarrow> jsval \<Rightarrow> jsval \<Rightarrow> jsval \<Rightarrow> CieloHVAC" where
  "updateState hvac pwr temperature mode fanSpeed =
     hvac\<lparr> getPower := pwr, getTemperature := temperature,
           getMode := mode, getFanSpeed := fanSpeed \<rparr>"

definition updateRoomTemperature :: "CieloHVAC \<Rightarrow> jsval \<Rightarrow> CieloHVAC" where
  "updateRoomTemperature hvac roomTemperature = hvac\<lparr> getRoomTemperature := roomTemperature \<rparr>"

section \<open>The connection: class CieloAPIConnection\<close>

text \<open>
  The three callbacks are what the caller gave the constructor: a function
  (\<open>True\<close>) or nothing (\<open>False\<close>, the field is \<^verbatim>\<open>undefined\<close>). A callback is the
  caller's code; the model records each invocation with its argument, in order, in
  \<open>calls\<close>, and takes it that the callback returns. \<open>ws\<close> is \<open>None\<close> until
  \<^verbatim>\<open>#connect\<close> has created the socket.
\<close>

datatype call =
    CommandCallback jsval
  | TemperatureCallback jsval
  | ErrorCallback exn

datatype websocket = WebSocket jsval jsval

record CieloAPIConnection =
  sessionID :: jsval
  userID :: jsval
  accessToken :: jsval
  commandCount :: nat
  ws :: "websocket option"
  hvacs :: "CieloHVAC list"
  commandCallback :: bool
  temperatureCallback :: bool
  errorCallback :: bool
  calls :: "call list"

definition new_CieloAPIConnection :: "bool \<Rightarrow> bool \<Rightarrow> bool \<Rightarrow> CieloAPIConnection" where
  "new_CieloAPIConnection commandCb temperatureCb errorCb =
     \<lparr> sessionID = JUndefined, userID = JUndefined, accessToken = JUndefined,
       commandCount = 0, ws = None, hvacs = [],
       commandCallback = commandCb, temperatureCallback = temperatureCb,
       errorCallback = errorCb, calls = [] \<rparr>"

subsection \<open>Building a command\<close>

definition buildCommand ::
  "jsval \<Rightarrow> jsval \<Rightarrow> jsval \<Rightarrow> jsval \<Rightarrow> bool \<Rightarrow> string \<Rightarrow> jsval \<Rightarrow> jsval" where
  "buildCommand temp pwr fanspeed mode isAction performedAction performedValue =
     JObj [
       (''fanspeed'', fanspeed),
       (''light'', JStr ''off''),
       (''mode'', if isAction \<and> performedAction = ''mode'' then performedValue else mode),
       (''oldPower'', pwr),
       (''power'', pwr),
       (''swing'', JStr ''auto/stop''),
       (''temp'', if isAction \<and> performedAction = ''temp'' then performedValue else temp),
       (''turbo'', JStr ''off'')]"

text \<open>
  \<^verbatim>\<open>this.#commandCount++\<close> on a double that holds a natural number: exact below
  \<open>2^53\<close>; at \<open>2^53\<close> the sum is not representable and rounds back to \<open>2^53\<close>, so the
  counter, which starts at 0, never gets past it.
\<close>

definition increment :: "nat \<Rightarrow> nat" where
  "increment n = (if n < 2 ^ 53 then n + 1 else n)"

text \<open>
  \<^verbatim>\<open>Math.round(Date.now() / 1000)\<close>, with \<open>now\<close> the clock in milliseconds since the
  epoch: the nearest whole second, a half rounding up.
\<close>

definition seconds :: "nat \<Rightarrow> nat" where
  "seconds now = (now + 500) div 1000"

text \<open>
  \<open>buildCommandPayload\<close> returns the object that the source hands to
  \<^verbatim>\<open>JSON.stringify\<close>, and the connection with its counter advanced. The text that
  \<^verbatim>\<open>JSON.stringify\<close> makes of the object is not modelled: it leaves out a property
  whose value is \<^verbatim>\<open>undefined\<close>, and reading a property that was left out gives
  \<^verbatim>\<open>undefined\<close>, so for the values that \<^verbatim>\<open>JSON.parse\<close> produces a property read on
  the object is the read on what the receiver parses. The local constant
  \<^verbatim>\<open>commandCount\<close> of the source takes the old counter and is not used afterwards.
\<close>

definition buildCommandPayload ::
  "CieloAPIConnection \<Rightarrow> CieloHVAC \<Rightarrow> string \<Rightarrow> jsval \<Rightarrow> nat \<Rightarrow> jsval \<times> CieloAPIConnection" where
  "buildCommandPayload conn hvac performedAction performedActionValue now =
     (let commandCount' = commandCount conn;
          conn' = conn\<lparr> commandCount := increment (commandCount conn) \<rparr>;
          deviceTypeVersion = JStr ''BP01''
      in (JObj [
            (''action'', JStr ''actionControl''),
            (''actionSource'', JStr ''WEB''),
            (''actionType'', JStr performedAction),
            (''actionValue'', performedActionValue),
            (''actions'', buildCommand (getTemperature hvac) (getPower hvac) (getFanSpeed hvac)
                            (getMode hvac) True performedAction performedActionValue),
            (''applianceId'', getApplianceID hvac),
            (''applianceType'', JStr ''AC''),
            (''application_version'', JStr ''1.0.0''),
            (''connection_source'', JNum 0),
            (''deviceTypeVersion'', deviceTypeVersion),
            (''fwVersion'', getFwVersion hvac),
            (''macAddress'', getMacAddress hvac),
            (''mid'', sessionID conn),
            (''token'', accessToken conn),
            (''ts'', JNum (of_nat (seconds now)))],
          conn'))"

subsection \<open>Sending a command\<close>

text \<open>
  The names a body of the module can refer to: the module's own declarations, the
  globals of the runtime that the file uses, and what is in scope inside the callback
  that \<open>sendCommand\<close> passes to the socket. Any other identifier throws a
  ReferenceError when it is evaluated.
\<close>

definition module_scope :: "string list" where
  "module_scope =
     [''querystring'', ''fetch'', ''WebSocket'', ''API_HOST'', ''API_HTTP_PROTOCOL'',
      ''PING_INTERVAL'', ''DEFAULT_POWER'', ''DEFAULT_MODE'', ''DEFAULT_FAN'',
      ''DEFAULT_TEMPERATURE'', ''CieloAPIConnection'', ''CieloHVAC'']"

definition runtime_globals :: "string list" where
  "runtime_globals =
     [''require'', ''module'', ''console'', ''JSON'', ''Math'', ''Date'', ''Promise'',
      ''URL'', ''Error'', ''undefined'']"

definition sendCommand_scope :: "string list" where
  "sendCommand_scope =
     [''hvac'', ''performedAction'', ''performedActionValue'', ''resolve'', ''reject'',
      ''error'']"

definition evaluate_identifier :: "string \<Rightarrow> exn + unit" where
  "evaluate_identifier x =
     (if x \<in> set (sendCommand_scope @ module_scope @ runtime_globals) then Inr ()
      else Inl (ReferenceError x))"

text \<open>
  The callback \<^verbatim>\<open>(error) => { if (error) { log.error(error); reject(error); } else
  { resolve(); } }\<close>. It either settles the promise or throws; \<open>error\<close> is the
  transport's error object, if it reports one.
\<close>

definition send_callback :: "exn option \<Rightarrow> exn + promise" where
  "send_callback error =
     (case error of
        Some e \<Rightarrow> reading (evaluate_identifier ''log'') Inl (\<lambda>_. Inr (Rejected e))
      | None \<Rightarrow> Inr Resolved)"

text \<open>
  What the socket's \<^verbatim>\<open>send\<close> does with the payload is the transport's business:
  it throws at once (the socket is still connecting), or it calls the callback,
  inside the call or from a later turn of the event loop, with the write error or
  with nothing.
\<close>

datatype transport =
    SendThrows exn
  | CallbackNow "exn option"
  | CallbackLater "exn option"

text \<open>
  \<open>sendCommand\<close> gives the state of the promise it returned once the transport has
  answered, an exception that escaped into the event loop (thrown by the callback
  outside the promise's executor), and the connection. An exception inside the
  executor rejects the promise. With no socket, \<^verbatim>\<open>this.#ws.send\<close> throws before
  the argument, the payload, is evaluated.
\<close>

definition sendCommand ::
  "CieloAPIConnection \<Rightarrow> CieloHVAC \<Rightarrow> string \<Rightarrow> jsval \<Rightarrow> nat \<Rightarrow> (jsval \<Rightarrow> transport)
     \<Rightarrow> promise \<times> exn option \<times> CieloAPIConnection" where
  "sendCommand conn hvac performedAction performedActionValue now send =
     (case ws conn of
        None \<Rightarrow> (Rejected TypeError, None, conn)
      | Some socket \<Rightarrow>
          (case buildCommandPayload conn hvac performedAction performedActionValue now of
             (payload, conn') \<Rightarrow>
               (case send payload of
                  SendThrows e \<Rightarrow> (Rejected e, None, conn')
                | CallbackNow error \<Rightarrow>
                    (case send_callback error of
                       Inl thrown \<Rightarrow> (Rejected thrown, None, conn')
                     | Inr settled \<Rightarrow> (settled, None, conn'))
                | CallbackLater error \<Rightarrow>
                    (case send_callback error of
                       Inl thrown \<Rightarrow> (Pending, Some thrown, conn')
                     | Inr settled \<Rightarrow> (settled, None, conn')))))"

subsection \<open>The message handler of the channel\<close>

text \<open>
  \<^verbatim>\<open>xs.forEach(f)\<close> where \<open>f\<close> mutates the element it is given, or throws before it
  mutates anything: the elements before the one that throws stay mutated.
\<close>

fun forEach :: "('a \<Rightarrow> exn + 'a) \<Rightarrow> 'a list \<Rightarrow> exn option \<times> 'a list" where
  "forEach f [] = (None, [])"
| "forEach f (x # xs) =
     (case f x of
        Inl e \<Rightarrow> (Some e, x # xs)
      | Inr y \<Rightarrow> (case forEach f xs of (r, ys) \<Rightarrow> (r, y # ys)))"

text \<open>The condition of the handler's \<^verbatim>\<open>if\<close>, with its short-circuit evaluation.\<close>

definition message_guard :: "jsval \<Rightarrow> exn + bool" where
  "message_guard data =
     reading (property data ''message_type'') Inl (\<lambda>message_type.
       if \<not> truthy message_type then Inr False
       else if typeof message_type \<noteq> ''string'' then Inr False
       else reading (property message_type ''length'') Inl (\<lambda>len.
         if \<not> greater_zero len then Inr False
         else reading (property data ''action'') Inl (\<lambda>action.
           Inr (truthy action \<and> typeof action = ''object''))))"

text \<open>The two callbacks given to \<open>forEach\<close>.\<close>

definition web_update :: "jsval \<Rightarrow> jsval \<Rightarrow> CieloHVAC \<Rightarrow> exn + CieloHVAC" where
  "web_update status thisMac hvac =
     (if strict_eq (getMacAddress hvac) thisMac then
        reading (property status ''power'') Inl (\<lambda>pwr.
        reading (property status ''temp'') Inl (\<lambda>temp.
        reading (property status ''mode'') Inl (\<lambda>mode.
        reading (property status ''fanspeed'') Inl (\<lambda>fanspeed.
          Inr (updateState hvac pwr temp mode fanspeed)))))
      else Inr hvac)"

definition heartbeat_update :: "jsval \<Rightarrow> jsval \<Rightarrow> CieloHVAC \<Rightarrow> exn + CieloHVAC" where
  "heartbeat_update roomTemp thisMac hvac =
     (if strict_eq (getMacAddress hvac) thisMac then Inr (updateRoomTemperature hvac roomTemp)
      else Inr hvac)"

text \<open>
  The handler of \<^verbatim>\<open>'message'\<close>. \<open>message\<close> is what \<^verbatim>\<open>JSON.parse\<close> makes of the
  frame, \<open>None\<close> when it throws a SyntaxError. The result is the exception the
  handler throws, if any, and the connection it leaves.
\<close>

definition onMessage ::
  "CieloAPIConnection \<Rightarrow> jsval option \<Rightarrow> (exn + unit) \<times> CieloAPIConnection" where
  "onMessage conn message =
     (case message of
        None \<Rightarrow> (Inl SyntaxError, conn)
      | Some data \<Rightarrow>
          reading (message_guard data) (\<lambda>e. (Inl e, conn)) (\<lambda>passes.
            if \<not> passes then (Inr (), conn)
            else
              reading (property data ''mid'') (\<lambda>e. (Inl e, conn)) (\<lambda>type.
              reading (property data ''action'') (\<lambda>e. (Inl e, conn)) (\<lambda>status.
              reading (property data ''lat_env_var'') (\<lambda>e. (Inl e, conn)) (\<lambda>lat_env_var.
              reading (property lat_env_var ''temperature'') (\<lambda>e. (Inl e, conn)) (\<lambda>roomTemp.
              reading (property data ''mac_address'') (\<lambda>e. (Inl e, conn)) (\<lambda>thisMac.
                if strict_eq type (JStr ''WEB'') then
                  (case forEach (web_update status thisMac) (hvacs conn) of
                     (Some e, hs) \<Rightarrow> (Inl e, conn\<lparr> hvacs := hs \<rparr>)
                   | (None, hs) \<Rightarrow>
                       (Inr (),
                        if commandCallback conn
                        then conn\<lparr> hvacs := hs, calls := calls conn @ [CommandCallback status] \<rparr>
                        else conn\<lparr> hvacs := hs \<rparr>))
                else if strict_eq type (JStr ''Heartbeat'') then
                  (case forEach (heartbeat_update roomTemp thisMac) (hvacs conn) of
                     (Some e, hs) \<Rightarrow> (Inl e, conn\<lparr> hvacs := hs \<rparr>)
                   | (None, hs) \<Rightarrow>
                       (Inr (),
                        if temperatureCallback conn
                        then conn\<lparr> hvacs := hs, calls := calls conn @ [TemperatureCallback roomTemp] \<rparr>
                        else conn\<lparr> hvacs := hs \<rparr>))
                else (Inr (), conn))))))))"

subsection \<open>Discovery: subscribeToHVACs\<close>

text \<open>
  \<^verbatim>\<open>#getDeviceInfo\<close>: the parsed body of the backend's answer, or \<^verbatim>\<open>undefined\<close>
  when the request or the parsing of its body failed (the source catches and logs).
\<close>

definition getDeviceInfo :: "jsval option \<Rightarrow> jsval" where
  "getDeviceInfo response = (case response of None \<Rightarrow> JUndefined | Some responseJSON \<Rightarrow> responseJSON)"

text \<open>
  \<^verbatim>\<open>for (const device of v)\<close>: an array gives its elements, a string its characters;
  nothing else that \<^verbatim>\<open>JSON.parse\<close> returns is iterable.
\<close>

definition iterate :: "jsval \<Rightarrow> exn + jsval list" where
  "iterate v =
     (case v of
        JArr xs \<Rightarrow> Inr xs
      | JStr s \<Rightarrow> Inr (map (\<lambda>c. JStr [c]) s)
      | _ \<Rightarrow> Inl TypeError)"

text \<open>\<^verbatim>\<open>macAddresses.includes(v)\<close> for the array of strings the caller passes.\<close>

definition array_includes :: "string list \<Rightarrow> jsval \<Rightarrow> bool" where
  "array_includes macAddresses v = (case v of JStr s \<Rightarrow> s \<in> set macAddresses | _ \<Rightarrow> False)"

text \<open>
  The body of the loop for one device: \<open>None\<close> when the device is not asked for,
  the record to push otherwise.
\<close>

definition subscribe_device :: "string list \<Rightarrow> jsval \<Rightarrow> exn + CieloHVAC option" where
  "subscribe_device macAddresses device =
     reading (property device ''macAddress'') Inl (\<lambda>macAddress.
       if \<not> array_includes macAddresses macAddress then Inr None
       else
         reading (property device ''deviceName'') Inl (\<lambda>deviceName.
         reading (property device ''applianceId'') Inl (\<lambda>applianceId.
         reading (property device ''fwVersion'') Inl (\<lambda>fwVersion.
         reading (property device ''latestAction'') Inl (\<lambda>latestAction.
         reading (property latestAction ''power'') Inl (\<lambda>pwr.
         reading (property latestAction ''temp'') Inl (\<lambda>temp.
         reading (property latestAction ''mode'') Inl (\<lambda>mode.
         reading (property latestAction ''fanspeed'') Inl (\<lambda>fanspeed.
         reading (property device ''latEnv'') Inl (\<lambda>latEnv.
         reading (property latEnv ''temp'') Inl (\<lambda>roomTemp.
           Inr (Some (updateRoomTemperature
                        (updateState (new_CieloHVAC macAddress deviceName applianceId fwVersion)
                           pwr temp mode fanspeed)
                        roomTemp)))))))))))))"

fun subscribe_loop ::
  "string list \<Rightarrow> jsval list \<Rightarrow> CieloHVAC list \<Rightarrow> exn option \<times> CieloHVAC list" where
  "subscribe_loop macAddresses [] registry = (None, registry)"
| "subscribe_loop macAddresses (device # devices) registry =
     (case subscribe_device macAddresses device of
        Inl e \<Rightarrow> (Some e, registry)
      | Inr None \<Rightarrow> subscribe_loop macAddresses devices registry
      | Inr (Some hvac) \<Rightarrow> subscribe_loop macAddresses devices (registry @ [hvac]))"

text \<open>
  \<^verbatim>\<open>#connect\<close> creates the socket and returns a promise that is resolved when the
  socket opens and is never rejected; \<open>opened\<close> says whether it opens.
\<close>

definition connect :: "CieloAPIConnection \<Rightarrow> bool \<Rightarrow> promise \<times> CieloAPIConnection" where
  "connect conn opened =
     (if opened then Resolved else Pending,
      conn\<lparr> ws := Some (WebSocket (sessionID conn) (accessToken conn)) \<rparr>)"

text \<open>
  \<open>subscribeToHVACs\<close> is an \<^verbatim>\<open>async\<close> function: an exception in its body rejects
  the promise it returns. \<open>response\<close> is the backend's answer to the device-list
  request.
\<close>

definition subscribeToHVACs ::
  "CieloAPIConnection \<Rightarrow> string list \<Rightarrow> jsval option \<Rightarrow> bool \<Rightarrow> promise \<times> CieloAPIConnection" where
  "subscribeToHVACs conn macAddresses response opened =
     (let conn1 = conn\<lparr> hvacs := [], commandCount := 0 \<rparr>;
          deviceInfo = getDeviceInfo response
      in reading (property deviceInfo ''error'') (\<lambda>e. (Rejected e, conn1)) (\<lambda>err.
           if truthy err then (Rejected (Value err), conn1)
           else
             reading (property deviceInfo ''data'') (\<lambda>e. (Rejected e, conn1)) (\<lambda>d.
             reading (property d ''listDevices'') (\<lambda>e. (Rejected e, conn1)) (\<lambda>listDevices.
             reading (iterate listDevices) (\<lambda>e. (Rejected e, conn1)) (\<lambda>devices.
               (case subscribe_loop macAddresses devices (hvacs conn1) of
                  (Some e, registry) \<Rightarrow> (Rejected e, conn1\<lparr> hvacs := registry \<rparr>)
                | (None, registry) \<Rightarrow> connect (conn1\<lparr> hvacs := registry \<rparr>) opened))))))"

text \<open>
  The handlers of \<^verbatim>\<open>'close'\<close> and \<^verbatim>\<open>'error'\<close> call the error callback without
  testing it.
\<close>

definition onClose :: "CieloAPIConnection \<Rightarrow> (exn + unit) \<times> CieloAPIConnection" where
  "onClose conn =
     (if errorCallback conn
      then (Inr (), conn\<lparr> calls := calls conn @ [ErrorCallback (TransportError ''Connection Closed.'')] \<rparr>)
      else (Inl TypeError, conn))"

definition onError :: "CieloAPIConnection \<Rightarrow> exn \<Rightarrow> (exn + unit) \<times> CieloAPIConnection" where
  "onError conn err =
     (if errorCallback conn
      then (Inr (), conn\<lparr> calls := calls conn @ [ErrorCallback err] \<rparr>)
      else (Inl TypeError, conn))"

section \<open>Reading the results\<close>

text \<open>
  \<open>field v k\<close> is the value of \<^verbatim>\<open>v.k\<close> where the read does not throw, and
  \<open>actions payload k\<close> reads property \<open>k\<close> of the control vector of a payload.
\<close>

definition field :: "jsval \<Rightarrow> string \<Rightarrow> jsval" where
  "field v k = (case property v k of Inl e \<Rightarrow> JUndefined | Inr x \<Rightarrow> x)"

definition actions :: "jsval \<Rightarrow> string \<Rightarrow> exn + jsval" where
  "actions payload k = reading (property payload ''actions'') Inl (\<lambda>vector. property vector k)"

text \<open>\<^verbatim>\<open>Object.values(v)\<close> of an object.\<close>

definition own_values :: "jsval \<Rightarrow> jsval list" where
  "own_values v = (case v of JObj kvs \<Rightarrow> map snd kvs | _ \<Rightarrow> [])"

text \<open>The four fields that \<open>updateState\<close> writes, read together.\<close>

definition state_of :: "CieloHVAC \<Rightarrow> jsval \<times> jsval \<times> jsval \<times> jsval" where
  "state_of hvac = (getPower hvac, getTemperature hvac, getMode hvac, getFanSpeed hvac)"

section \<open>Closed forms\<close>

text \<open>
  What the two callbacks of the handler do to a record when reading the message does
  not throw, and the connection the handler then leaves: closed forms, which the
  lemmas below relate to the handler.
\<close>

definition web_apply :: "jsval \<Rightarrow> jsval \<Rightarrow> CieloHVAC \<Rightarrow> CieloHVAC" where
  "web_apply status thisMac hvac =
     (if strict_eq (getMacAddress hvac) thisMac
      then updateState hvac (field status ''power'') (field status ''temp'')
             (field status ''mode'') (field status ''fanspeed'')
      else hvac)"

definition heartbeat_apply :: "jsval \<Rightarrow> jsval \<Rightarrow> CieloHVAC \<Rightarrow> CieloHVAC" where
  "heartbeat_apply roomTemp thisMac hvac =
     (if strict_eq (getMacAddress hvac) thisMac then updateRoomTemperature hvac roomTemp
      else hvac)"

definition handled :: "CieloAPIConnection \<Rightarrow> jsval \<Rightarrow> jsval \<Rightarrow> CieloAPIConnection" where
  "handled conn data roomTemp =
     (if strict_eq (field data ''mid'') (JStr ''WEB'') then
        conn\<lparr> hvacs := map (web_apply (field data ''action'') (field data ''mac_address'')) (hvacs conn),
              calls := (if commandCallback conn
                        then calls conn @ [CommandCallback (field data ''action'')]
                        else calls conn) \<rparr>
      else if strict_eq (field data ''mid'') (JStr ''Heartbeat'') then
        conn\<lparr> hvacs := map (heartbeat_apply roomTemp (field data ''mac_address'')) (hvacs conn),
              calls := (if temperatureCallback conn
                        then calls conn @ [TemperatureCallback roomTemp]
                        else calls conn) \<rparr>
      else conn)"

section \<open>Example inputs\<close>

definition den_hvac :: CieloHVAC where
  "den_hvac =
     \<lparr> getPower = JStr ''on'', getTemperature = JStr ''72'', getMode = JStr ''cool'',
       getFanSpeed = JStr ''low'', getRoomTemperature = JStr ''74'',
       getDeviceName = JStr ''Den'', getMacAddress = JStr ''AA:BB:CC:DD:EE:FF'',
       getApplianceID = JNum 1481, getFwVersion = JStr ''2.4.2'' \<rparr>"

text \<open>A connection that is logged in and subscribed to the den, five commands sent.\<close>

definition den_conn :: CieloAPIConnection where
  "den_conn =
     \<lparr> sessionID = JStr ''session-1'', userID = JStr ''user-1'',
       accessToken = JStr ''token-1'', commandCount = 5,
       ws = Some (WebSocket (JStr ''session-1'') (JStr ''token-1'')),
       hvacs = [den_hvac], commandCallback = True, temperatureCallback = True,
       errorCallback = True, calls = [] \<rparr>"

text \<open>A clock reading, in milliseconds since the epoch.\<close>

definition clock :: nat where
  "clock = 1700000000400"

text \<open>Transports: a write that succeeds, and writes that fail with an error.\<close>

definition write_ok :: "jsval \<Rightarrow> transport" where
  "write_ok payload = CallbackLater None"

definition write_fails_later :: "jsval \<Rightarrow> transport" where
  "write_fails_later payload = CallbackLater (Some (TransportError ''write EPIPE''))"

definition write_fails_now :: "jsval \<Rightarrow> transport" where
  "write_fails_now payload = CallbackNow (Some (TransportError ''write EPIPE''))"

text \<open>The state-change message of the scenario, as the specification gives it.\<close>

definition scenario_action :: jsval where
  "scenario_action =
     JObj [(''power'', JStr ''off''), (''temp'', JStr ''70''),
           (''mode'', JStr ''auto''), (''fanspeed'', JStr ''auto'')]"

definition scenario_message :: jsval where
  "scenario_message =
     JObj [(''message_type'', JStr ''x''), (''mid'', JStr ''WEB''),
           (''action'', scenario_action),
           (''mac_address'', JStr ''AA:BB:CC:DD:EE:FF'')]"

text \<open>The same message with the ambient-temperature sub-object of the channel's schema.\<close>

definition scenario_message_with :: "jsval \<Rightarrow> jsval" where
  "scenario_message_with lat_env_var =
     JObj [(''message_type'', JStr ''x''), (''mid'', JStr ''WEB''),
           (''action'', scenario_action),
           (''lat_env_var'', lat_env_var),
           (''mac_address'', JStr ''AA:BB:CC:DD:EE:FF'')]"

definition heartbeat_message :: jsval where
  "heartbeat_message =
     JObj [(''message_type'', JStr ''x''), (''mid'', JStr ''Heartbeat''),
           (''action'', scenario_action),
           (''lat_env_var'', JObj [(''temperature'', JStr ''75'')]),
           (''mac_address'', JStr ''AA:BB:CC:DD:EE:FF'')]"

text \<open>Messages for a device that is not in the registry.\<close>

definition stranger_message :: jsval where
  "stranger_message =
     JObj [(''message_type'', JStr ''x''), (''mid'', JStr ''WEB''),
           (''action'', scenario_action),
           (''mac_address'', JStr ''11:22:33:44:55:66'')]"

definition stranger_message_with :: "jsval \<Rightarrow> jsval" where
  "stranger_message_with lat_env_var =
     JObj [(''message_type'', JStr ''x''), (''mid'', JStr ''Heartbeat''),
           (''action'', scenario_action),
           (''lat_env_var'', lat_env_var),
           (''mac_address'', JStr ''11:22:33:44:55:66'')]"

text \<open>
  A state-change message with every field of the schema whose \<^verbatim>\<open>message_type\<close> is the
  empty string, and a heartbeat whose \<^verbatim>\<open>lat_env_var\<close> is \<^verbatim>\<open>null\<close>.
\<close>

definition untagged_message :: jsval where
  "untagged_message =
     JObj [(''message_type'', JStr ''''), (''mid'', JStr ''WEB''),
           (''action'', scenario_action),
           (''lat_env_var'', JObj [(''temperature'', JStr ''75'')]),
           (''mac_address'', JStr ''AA:BB:CC:DD:EE:FF'')]"

definition heartbeat_without_reading :: jsval where
  "heartbeat_without_reading =
     JObj [(''message_type'', JStr ''x''), (''mid'', JStr ''Heartbeat''),
           (''action'', scenario_action),
           (''lat_env_var'', JNull),
           (''mac_address'', JStr ''AA:BB:CC:DD:EE:FF'')]"

text \<open>Answers of the backend to the device-list request: a list of two devices, and an error.\<close>

definition den_device :: jsval where
  "den_device =
     JObj [(''macAddress'', JStr ''AA:BB:CC:DD:EE:FF''), (''deviceName'', JStr ''Den''),
           (''applianceId'', JNum 1481), (''fwVersion'', JStr ''2.4.2''),
           (''latestAction'',
              JObj [(''power'', JStr ''on''), (''temp'', JStr ''72''),
                    (''mode'', JStr ''cool''), (''fanspeed'', JStr ''low'')]),
           (''latEnv'', JObj [(''temp'', JStr ''74'')])]"

definition attic_device :: jsval where
  "attic_device =
     JObj [(''macAddress'', JStr ''11:22:33:44:55:66''), (''deviceName'', JStr ''Attic''),
           (''applianceId'', JNum 1502), (''fwVersion'', JStr ''2.4.2''),
           (''latestAction'',
              JObj [(''power'', JStr ''off''), (''temp'', JStr ''68''),
                    (''mode'', JStr ''heat''), (''fanspeed'', JStr ''auto'')]),
           (''latEnv'', JObj [(''temp'', JStr ''61'')])]"

definition devices_response :: jsval where
  "devices_response = JObj [(''data'', JObj [(''listDevices'', JArr [attic_device, den_device])])]"

definition backend_error :: jsval where
  "backend_error = JObj [(''message'', JStr ''Unauthorized'')]"

definition error_response :: jsval where
  "error_response = JObj [(''error'', backend_error)]"

section \<open>Facts about the handler\<close>

text \<open>A read that succeeds on a value succeeds for every property name of that value.\<close>

lemma property_field:
  assumes "property v k = Inr x"
  shows "property v k' = Inr (field v k')"
  using assms by (cases v) (simp_all add: field_def)

lemma property_object:
  assumes "truthy v" and "typeof v = ''object''"
  shows "property v k = Inr (field v k)"
  using assms by (cases v) (simp_all add: field_def)

text \<open>What a message that passes the guard looks like.\<close>

lemma message_guard_passes:
  assumes "message_guard data = Inr True"
  shows "property data ''action'' = Inr (field data ''action'')"
    and "truthy (field data ''action'')"
    and "typeof (field data ''action'') = ''object''"
  using assms
  by (auto simp: message_guard_def reading_def field_def split: sum.splits if_splits)

text \<open>The guard throws only when the message itself is \<^verbatim>\<open>null\<close>.\<close>

lemma message_guard_throws:
  assumes "message_guard data = Inl e"
  shows "data = JNull \<or> data = JUndefined"
proof (cases data)
  case (JStr s)
  with assms show ?thesis
    by (simp add: message_guard_def reading_def)
next
  case (JArr xs)
  with assms show ?thesis
    by (simp add: message_guard_def reading_def)
next
  case (JObj kvs)
  obtain message_type where mt: "property data ''message_type'' = Inr message_type"
    using JObj by simp
  have len: "typeof message_type = ''string'' \<Longrightarrow>
      \<exists>n. property message_type ''length'' = Inr n"
    by (cases message_type) simp_all
  have act: "\<exists>a. property data ''action'' = Inr a"
    using JObj by simp
  from assms mt len act show ?thesis
    by (auto simp: message_guard_def reading_def split: if_splits)
qed (use assms in \<open>simp_all add: message_guard_def reading_def\<close>)

text \<open>A loop whose callback never throws is a map.\<close>

lemma forEach_map:
  assumes "\<And>x. f x = Inr (g x)"
  shows "forEach f xs = (None, map g xs)"
  by (induction xs) (simp_all add: assms)

text \<open>A loop whose callback keeps a projection of each element keeps it on the list.\<close>

lemma forEach_preserves:
  assumes "\<And>x y. f x = Inr y \<Longrightarrow> p y = p x"
  shows "map p (snd (forEach f xs)) = map p xs"
proof (induction xs)
  case Nil
  show ?case by simp
next
  case (Cons x xs)
  show ?case
  proof (cases "f x")
    case (Inl e)
    then show ?thesis by simp
  next
    case (Inr y)
    with Cons assms [OF Inr] show ?thesis
      by (simp add: split_beta)
  qed
qed

text \<open>The two callbacks, on a message that passed the guard.\<close>

lemma web_update_object:
  assumes "truthy status" and "typeof status = ''object''"
  shows "web_update status thisMac hvac = Inr (web_apply status thisMac hvac)"
  by (simp add: web_update_def web_apply_def reading_def property_object [OF assms])

lemma heartbeat_update_apply:
  "heartbeat_update roomTemp thisMac hvac = Inr (heartbeat_apply roomTemp thisMac hvac)"
  by (simp add: heartbeat_update_def heartbeat_apply_def)

lemma web_update_room:
  assumes "web_update status thisMac hvac = Inr hvac'"
  shows "getRoomTemperature hvac' = getRoomTemperature hvac"
  using assms
  by (auto simp: web_update_def reading_def updateState_def split: if_splits sum.splits)

lemma heartbeat_update_state:
  assumes "heartbeat_update roomTemp thisMac hvac = Inr hvac'"
  shows "state_of hvac' = state_of hvac"
  using assms
  by (auto simp: heartbeat_update_def updateRoomTemperature_def state_of_def split: if_splits)

text \<open>
  The handler on a message that passes the guard and whose \<^verbatim>\<open>lat_env_var\<close> can be
  read does not throw.
\<close>

lemma onMessage_handled:
  assumes guard: "message_guard data = Inr True"
    and env: "property data ''lat_env_var'' = Inr lat_env_var"
    and temp: "property lat_env_var ''temperature'' = Inr roomTemp"
  shows "onMessage conn (Some data) = (Inr (), handled conn data roomTemp)"
proof -
  note act = message_guard_passes [OF guard]
  have mid: "property data ''mid'' = Inr (field data ''mid'')"
    and mac: "property data ''mac_address'' = Inr (field data ''mac_address'')"
    using env by (rule property_field)+
  have web: "forEach (web_update (field data ''action'') m) hs =
      (None, map (web_apply (field data ''action'') m) hs)" for m hs
    by (rule forEach_map) (rule web_update_object [OF act(2) act(3)])
  have hb: "forEach (heartbeat_update roomTemp m) hs =
      (None, map (heartbeat_apply roomTemp m) hs)" for m hs
    by (rule forEach_map) (rule heartbeat_update_apply)
  show ?thesis
    by (simp add: onMessage_def reading_def guard mid act(1) env temp mac web hb handled_def)
qed

lemma onMessage_ignored:
  assumes "message_guard data = Inr False"
  shows "onMessage conn (Some data) = (Inr (), conn)"
  by (simp add: onMessage_def reading_def assms)

text \<open>A \<^verbatim>\<open>lat_env_var\<close> that is neither \<^verbatim>\<open>undefined\<close> nor \<^verbatim>\<open>null\<close> can be read.\<close>

lemma property_defined:
  assumes "v \<noteq> JUndefined" and "v \<noteq> JNull"
  shows "property v k = Inr (field v k)"
  using assms by (cases v) (simp_all add: field_def)

text \<open>The handler's two loops leave alone what their callback does not write.\<close>

lemma forEach_web_room:
  "map getRoomTemperature (snd (forEach (web_update status thisMac) hs))
     = map getRoomTemperature hs"
  by (rule forEach_preserves) (rule web_update_room)

lemma forEach_heartbeat_state:
  "map state_of (snd (forEach (heartbeat_update roomTemp thisMac) hs)) = map state_of hs"
  by (rule forEach_preserves) (rule heartbeat_update_state)

lemma onMessage_heartbeat_state:
  assumes "property data ''mid'' = Inr (JStr ''Heartbeat'')"
  shows "map state_of (hvacs (snd (onMessage conn (Some data)))) = map state_of (hvacs conn)"
  using assms
  by (simp add: onMessage_def reading_def split_beta forEach_heartbeat_state
      split: sum.splits option.splits)

lemma onMessage_web_room:
  assumes "property data ''mid'' = Inr (JStr ''WEB'')"
  shows "map getRoomTemperature (hvacs (snd (onMessage conn (Some data))))
           = map getRoomTemperature (hvacs conn)"
  using assms
  by (simp add: onMessage_def reading_def split_beta forEach_web_room
      split: sum.splits option.splits)

text \<open>With no record of the message's identifier, the loops change nothing.\<close>

lemma forEach_web_unknown:
  assumes "list_all (\<lambda>hvac. \<not> strict_eq (getMacAddress hvac) thisMac) hs"
  shows "forEach (web_update status thisMac) hs = (None, hs)"
  using assms by (induction hs) (simp_all add: web_update_def)

lemma forEach_heartbeat_unknown:
  assumes "list_all (\<lambda>hvac. \<not> strict_eq (getMacAddress hvac) thisMac) hs"
  shows "forEach (heartbeat_update roomTemp thisMac) hs = (None, hs)"
  using assms by (induction hs) (simp_all add: heartbeat_update_def)

lemma onMessage_unknown_registry:
  assumes "property data ''mac_address'' = Inr thisMac"
    and "list_all (\<lambda>hvac. \<not> strict_eq (getMacAddress hvac) thisMac) (hvacs conn)"
  shows "hvacs (snd (onMessage conn (Some data))) = hvacs conn"
  using assms
  by (simp add: onMessage_def reading_def forEach_web_unknown forEach_heartbeat_unknown
      split: sum.splits)

text \<open>
  A message that is an object and whose \<^verbatim>\<open>lat_env_var\<close> is neither \<^verbatim>\<open>undefined\<close> nor
  \<^verbatim>\<open>null\<close> is handled without an exception.
\<close>

lemma onMessage_returns:
  assumes env: "property data ''lat_env_var'' = Inr lat_env_var"
    and defined: "lat_env_var \<noteq> JUndefined" "lat_env_var \<noteq> JNull"
  shows "fst (onMessage conn (Some data)) = Inr ()"
proof (cases "message_guard data")
  case (Inl e)
  then have "data = JNull \<or> data = JUndefined"
    by (rule message_guard_throws)
  with env show ?thesis by auto
next
  case (Inr passes)
  show ?thesis
  proof (cases passes)
    case True
    with Inr have "message_guard data = Inr True" by simp
    from onMessage_handled [OF this env property_defined [OF defined]]
    show ?thesis by simp
  next
    case False
    with Inr have "message_guard data = Inr False" by simp
    then show ?thesis by (simp add: onMessage_ignored)
  qed
qed

section \<open>The command codec\<close>

text \<open>
  The control vector follows the attribute for \<^verbatim>\<open>mode\<close> and \<^verbatim>\<open>temp\<close>, and keeps the
  device's current power and fan speed whatever the attribute is.
\<close>

lemma buildCommand_fields:
  "actions (fst (buildCommandPayload conn hvac a v now)) ''power'' = Inr (getPower hvac)"
  "actions (fst (buildCommandPayload conn hvac a v now)) ''oldPower'' = Inr (getPower hvac)"
  "actions (fst (buildCommandPayload conn hvac a v now)) ''fanspeed'' = Inr (getFanSpeed hvac)"
  "actions (fst (buildCommandPayload conn hvac a v now)) ''mode'' =
     Inr (if a = ''mode'' then v else getMode hvac)"
  "actions (fst (buildCommandPayload conn hvac a v now)) ''temp'' =
     Inr (if a = ''temp'' then v else getTemperature hvac)"
  by (simp_all add: actions_def reading_def buildCommandPayload_def buildCommand_def Let_def)

text \<open>
  C1. The claim: for each of the four attribute names, the control vector equals the
  device's current power, temperature, mode and fan speed except that the field named
  by the attribute holds the given value. The code does this for \<^verbatim>\<open>mode\<close> and
  \<^verbatim>\<open>temp\<close> only: \<open>buildCommand\<close> has no override for \<^verbatim>\<open>power\<close> and \<^verbatim>\<open>fanspeed\<close>.
  Switching the den, which is on, off builds a vector whose power is still
  \<^verbatim>\<open>"on"\<close>, and setting its fan, which is low, to high builds a vector whose fan speed
  is still \<^verbatim>\<open>"low"\<close>; the requested value only appears as \<^verbatim>\<open>actionValue\<close>.
\<close>

theorem buildCommandPayload_power_fanspeed_kept:
  "actions (fst (buildCommandPayload den_conn den_hvac ''power'' (JStr ''off'') clock)) ''power''
     = Inr (JStr ''on'')
   \<and> property (fst (buildCommandPayload den_conn den_hvac ''power'' (JStr ''off'') clock))
       ''actionValue'' = Inr (JStr ''off'')
   \<and> actions (fst (buildCommandPayload den_conn den_hvac ''fanspeed'' (JStr ''high'') clock))
       ''fanspeed'' = Inr (JStr ''low'')
   \<and> property (fst (buildCommandPayload den_conn den_hvac ''fanspeed'' (JStr ''high'') clock))
       ''actionValue'' = Inr (JStr ''high'')"
  by (simp add: actions_def reading_def buildCommandPayload_def buildCommand_def Let_def
      den_hvac_def)

text \<open>
  C9. For every device, every connection and every clock reading, the payload built
  for \<^verbatim>\<open>("temp", "68")\<close> has \<^verbatim>\<open>actions.temp\<close> equal to \<^verbatim>\<open>"68"\<close>, \<^verbatim>\<open>actions.power\<close>,
  \<^verbatim>\<open>actions.mode\<close> and \<^verbatim>\<open>actions.fanspeed\<close> equal to the device's current power, mode
  and fan speed, and \<^verbatim>\<open>actions.oldPower\<close> equal to the device's current power.
\<close>

theorem buildCommandPayload_temp_68:
  "actions (fst (buildCommandPayload conn hvac ''temp'' (JStr ''68'') now)) ''temp''
     = Inr (JStr ''68'')
   \<and> actions (fst (buildCommandPayload conn hvac ''temp'' (JStr ''68'') now)) ''power''
     = Inr (getPower hvac)
   \<and> actions (fst (buildCommandPayload conn hvac ''temp'' (JStr ''68'') now)) ''mode''
     = Inr (getMode hvac)
   \<and> actions (fst (buildCommandPayload conn hvac ''temp'' (JStr ''68'') now)) ''fanspeed''
     = Inr (getFanSpeed hvac)
   \<and> actions (fst (buildCommandPayload conn hvac ''temp'' (JStr ''68'') now)) ''oldPower''
     = Inr (getPower hvac)"
  by (simp add: actions_def reading_def buildCommandPayload_def buildCommand_def Let_def)

text \<open>
  C4, as the specification states it, fails: the payload does not contain the command
  sequence number. With the counter at 5, no property of the payload or of its control
  vector holds 5 or 6, and the next call, with the counter at 6, builds the very same
  payload.
\<close>

theorem buildCommandPayload_no_sequence_number:
  "commandCount den_conn = 5
   \<and> commandCount (snd (buildCommandPayload den_conn den_hvac ''temp'' (JStr ''68'') clock)) = 6
   \<and> JNum 5 \<notin> set (own_values (fst (buildCommandPayload den_conn den_hvac ''temp'' (JStr ''68'') clock)))
   \<and> JNum 6 \<notin> set (own_values (fst (buildCommandPayload den_conn den_hvac ''temp'' (JStr ''68'') clock)))
   \<and> JNum 5 \<notin> set (own_values (field (fst (buildCommandPayload den_conn den_hvac ''temp'' (JStr ''68'') clock)) ''actions''))
   \<and> JNum 6 \<notin> set (own_values (field (fst (buildCommandPayload den_conn den_hvac ''temp'' (JStr ''68'') clock)) ''actions''))
   \<and> fst (buildCommandPayload
            (snd (buildCommandPayload den_conn den_hvac ''temp'' (JStr ''68'') clock))
            den_hvac ''temp'' (JStr ''68'') clock)
       = fst (buildCommandPayload den_conn den_hvac ''temp'' (JStr ''68'') clock)"
  by (simp add: buildCommandPayload_def buildCommand_def Let_def own_values_def field_def
      den_conn_def den_hvac_def increment_def seconds_def clock_def)

text \<open>
  C4, amended. Every payload holds, alongside the control vector, the session id
  (\<^verbatim>\<open>mid\<close>), the access token, the device's identifier, appliance identifier and
  firmware version, and the clock in whole seconds since the epoch, rounded to the
  nearest second. The call leaves the connection as it was but for the command
  counter, which it advances by exactly 1 when the counter is below \<open>2^53\<close> and
  leaves in place otherwise; the counter is not part of the payload, which is the
  same whatever the counter is.
\<close>

theorem buildCommandPayload_routing:
  "property (fst (buildCommandPayload conn hvac a v now)) ''actions''
     = Inr (buildCommand (getTemperature hvac) (getPower hvac) (getFanSpeed hvac)
              (getMode hvac) True a v)
   \<and> property (fst (buildCommandPayload conn hvac a v now)) ''mid'' = Inr (sessionID conn)
   \<and> property (fst (buildCommandPayload conn hvac a v now)) ''token'' = Inr (accessToken conn)
   \<and> property (fst (buildCommandPayload conn hvac a v now)) ''macAddress''
     = Inr (getMacAddress hvac)
   \<and> property (fst (buildCommandPayload conn hvac a v now)) ''applianceId''
     = Inr (getApplianceID hvac)
   \<and> property (fst (buildCommandPayload conn hvac a v now)) ''fwVersion''
     = Inr (getFwVersion hvac)
   \<and> property (fst (buildCommandPayload conn hvac a v now)) ''ts''
     = Inr (JNum (of_nat ((now + 500) div 1000)))
   \<and> snd (buildCommandPayload conn hvac a v now)
     = conn\<lparr> commandCount :=
               (if commandCount conn < 2 ^ 53 then commandCount conn + 1
                else commandCount conn) \<rparr>
   \<and> fst (buildCommandPayload (conn\<lparr> commandCount := n \<rparr>) hvac a v now)
     = fst (buildCommandPayload conn hvac a v now)"
  by (simp add: buildCommandPayload_def Let_def seconds_def increment_def)

section \<open>Sending\<close>

text \<open>
  C3. The claim: when the transport reports a write error on an open channel,
  \<open>sendCommand\<close> rejects with that error. The callback of the code evaluates
  \<^verbatim>\<open>log.error(error)\<close> before \<^verbatim>\<open>reject(error)\<close>, and nothing in the module declares
  \<^verbatim>\<open>log\<close>: the callback throws a ReferenceError and never reaches \<^verbatim>\<open>reject\<close>. When the
  transport calls back from the event loop the promise stays pending and the
  ReferenceError escapes; when it calls back inside \<^verbatim>\<open>send\<close> the promise is rejected
  with the ReferenceError. In neither case is it rejected with the write error. The
  error callback is not invoked, as the claim says.
\<close>

theorem sendCommand_write_error:
  "sendCommand den_conn den_hvac ''power'' (JStr ''off'') clock write_fails_later
     = (Pending, Some (ReferenceError ''log''), den_conn\<lparr> commandCount := 6 \<rparr>)
   \<and> sendCommand den_conn den_hvac ''power'' (JStr ''off'') clock write_fails_now
     = (Rejected (ReferenceError ''log''), None, den_conn\<lparr> commandCount := 6 \<rparr>)
   \<and> calls (den_conn\<lparr> commandCount := 6 \<rparr>) = []"
  by (simp add: sendCommand_def buildCommandPayload_def Let_def send_callback_def reading_def
      evaluate_identifier_def sendCommand_scope_def module_scope_def runtime_globals_def
      increment_def write_fails_later_def write_fails_now_def den_conn_def)

text \<open>A write that succeeds resolves the promise.\<close>

lemma sendCommand_write_ok:
  "sendCommand den_conn den_hvac ''power'' (JStr ''off'') clock write_ok
     = (Resolved, None, den_conn\<lparr> commandCount := 6 \<rparr>)"
  by (simp add: sendCommand_def buildCommandPayload_def Let_def send_callback_def
      increment_def write_ok_def den_conn_def)

section \<open>The command counter and discovery\<close>

text \<open>The counter of a connection that has a socket, and the counter after discovery.\<close>

lemma sendCommand_commandCount:
  assumes "ws conn \<noteq> None"
  shows "commandCount (snd (snd (sendCommand conn hvac a v now send)))
           = increment (commandCount conn)"
  using assms
  by (auto simp: sendCommand_def buildCommandPayload_def Let_def
      split: transport.splits sum.splits)

lemma subscribeToHVACs_commandCount:
  "commandCount (snd (subscribeToHVACs conn macAddresses response opened)) = 0"
  by (simp add: subscribeToHVACs_def Let_def reading_def connect_def
      split: sum.splits prod.splits option.splits)

text \<open>Discovery of the den among the two devices the backend lists.\<close>

lemma subscribe_loop_den:
  "subscribe_loop [''AA:BB:CC:DD:EE:FF''] [attic_device, den_device] [] = (None, [den_hvac])"
  by (simp add: subscribe_device_def reading_def array_includes_def attic_device_def
      den_device_def den_hvac_def new_CieloHVAC_def updateState_def updateRoomTemperature_def)

lemma subscribeToHVACs_den:
  "subscribeToHVACs den_conn [''AA:BB:CC:DD:EE:FF''] (Some devices_response) True
     = (Resolved, den_conn\<lparr> commandCount := 0 \<rparr>)"
  by (simp add: subscribeToHVACs_def Let_def reading_def getDeviceInfo_def devices_response_def
      iterate_def subscribe_loop_den connect_def den_conn_def del: subscribe_loop.simps)

text \<open>
  C6, as the specification states it, fails: on a connection that has no socket yet
  (\<open>sendCommand\<close> before discovery) the call is rejected with a TypeError before the
  payload is built, and the counter stays where it was.
\<close>

theorem sendCommand_without_socket:
  "sendCommand (new_CieloAPIConnection True True True) den_hvac ''power'' (JStr ''off'') clock write_ok
     = (Rejected TypeError, None, new_CieloAPIConnection True True True)
   \<and> commandCount (snd (snd (sendCommand (new_CieloAPIConnection True True True) den_hvac
        ''power'' (JStr ''off'') clock write_ok)))
     \<noteq> commandCount (new_CieloAPIConnection True True True) + 1"
  by (simp add: sendCommand_def new_CieloAPIConnection_def)

text \<open>
  C6, amended. On a connection that has a socket, every \<open>sendCommand\<close> call increases
  the counter by exactly 1 as long as the counter is below \<open>2^53\<close>, whatever the
  transport answers; and after every discovery call that succeeds the counter is 0.
\<close>

theorem commandCount_steps:
  "(ws conn \<noteq> None \<and> commandCount conn < 2 ^ 53 \<longrightarrow>
      commandCount (snd (snd (sendCommand conn hvac a v now send))) = commandCount conn + 1)
   \<and> (fst (subscribeToHVACs conn macAddresses response opened) = Resolved \<longrightarrow>
      commandCount (snd (subscribeToHVACs conn macAddresses response opened)) = 0)"
  by (simp add: sendCommand_commandCount subscribeToHVACs_commandCount increment_def)

theorem commandCount_steps_witness:
  "ws den_conn \<noteq> None \<and> commandCount den_conn < 2 ^ 53
   \<and> commandCount (snd (snd (sendCommand den_conn den_hvac ''power'' (JStr ''off'') clock
        write_fails_later))) = commandCount den_conn + 1
   \<and> fst (subscribeToHVACs den_conn [''AA:BB:CC:DD:EE:FF''] (Some devices_response) True)
       = Resolved
   \<and> commandCount (snd (subscribeToHVACs den_conn [''AA:BB:CC:DD:EE:FF'']
        (Some devices_response) True)) = 0"
proof -
  have socket: "ws den_conn \<noteq> None" and below: "commandCount den_conn < 2 ^ 53"
    by (simp_all add: den_conn_def)
  have resolved:
    "fst (subscribeToHVACs den_conn [''AA:BB:CC:DD:EE:FF''] (Some devices_response) True)
       = Resolved"
    by (simp add: subscribeToHVACs_den)
  from commandCount_steps
    [of den_conn den_hvac "''power''" "JStr ''off''" clock write_fails_later
        "[''AA:BB:CC:DD:EE:FF'']" "Some devices_response" True]
  show ?thesis
    using socket below resolved by blast
qed

text \<open>
  C7. In every discovery call in which the backend's answer carries an error (a truthy
  \<^verbatim>\<open>error\<close> property), the call is rejected with that error payload and the registry
  is left empty.
\<close>

theorem subscribeToHVACs_backend_error:
  assumes "property (getDeviceInfo response) ''error'' = Inr err"
    and "truthy err"
  shows "fst (subscribeToHVACs conn macAddresses response opened) = Rejected (Value err)
    \<and> hvacs (snd (subscribeToHVACs conn macAddresses response opened)) = []"
  using assms by (simp add: subscribeToHVACs_def Let_def reading_def)

theorem subscribeToHVACs_backend_error_witness:
  "property (getDeviceInfo (Some error_response)) ''error'' = Inr backend_error
   \<and> truthy backend_error
   \<and> fst (subscribeToHVACs den_conn [''AA:BB:CC:DD:EE:FF''] (Some error_response) True)
       = Rejected (Value backend_error)
   \<and> hvacs (snd (subscribeToHVACs den_conn [''AA:BB:CC:DD:EE:FF''] (Some error_response) True))
       = []"
proof -
  have read: "property (getDeviceInfo (Some error_response)) ''error'' = Inr backend_error"
    by (simp add: getDeviceInfo_def error_response_def)
  have true: "truthy backend_error"
    by (simp add: backend_error_def)
  from subscribeToHVACs_backend_error [OF read true] read true
  show ?thesis by blast
qed

section \<open>The channel's handler\<close>

text \<open>
  C2, as the specification states it, fails: the message of the scenario has no
  \<^verbatim>\<open>lat_env_var\<close>, and the handler reads \<^verbatim>\<open>data.lat_env_var.temperature\<close> before
  it looks at the discriminator. On the den's connection the handler throws a
  TypeError and leaves the connection as it was: the den, which has the message's
  identifier, is still on, and no callback has been invoked.
\<close>

theorem onMessage_scenario_throws:
  "onMessage den_conn (Some scenario_message) = (Inl TypeError, den_conn)
   \<and> hvacs den_conn = [den_hvac]
   \<and> getMacAddress den_hvac = JStr ''AA:BB:CC:DD:EE:FF''
   \<and> getPower den_hvac = JStr ''on''
   \<and> commandCallback den_conn
   \<and> calls den_conn = []"
  by (simp add: onMessage_def message_guard_def reading_def scenario_message_def
      scenario_action_def den_conn_def den_hvac_def)

text \<open>
  C2, amended. When the message of the scenario also carries a \<^verbatim>\<open>lat_env_var\<close>
  sub-object (anything but \<^verbatim>\<open>undefined\<close> and \<^verbatim>\<open>null\<close>), then on every connection,
  with or without a command callback, the handler raises no error and every record
  of the registry with the identifier \<^verbatim>\<open>AA:BB:CC:DD:EE:FF\<close> has power \<^verbatim>\<open>"off"\<close>,
  temperature \<^verbatim>\<open>"70"\<close>, mode \<^verbatim>\<open>"auto"\<close> and fan speed \<^verbatim>\<open>"auto"\<close> afterwards; the
  command callback, when the caller supplied one, is invoked once, with the action
  object, and no callback is invoked when the caller supplied none.
\<close>

theorem onMessage_scenario:
  assumes "i < length (hvacs conn)"
    and "getMacAddress (hvacs conn ! i) = JStr ''AA:BB:CC:DD:EE:FF''"
    and "lat_env_var \<noteq> JUndefined" and "lat_env_var \<noteq> JNull"
  shows "fst (onMessage conn (Some (scenario_message_with lat_env_var))) = Inr ()
    \<and> getPower (hvacs (snd (onMessage conn (Some (scenario_message_with lat_env_var)))) ! i)
        = JStr ''off''
    \<and> getTemperature (hvacs (snd (onMessage conn (Some (scenario_message_with lat_env_var)))) ! i)
        = JStr ''70''
    \<and> getMode (hvacs (snd (onMessage conn (Some (scenario_message_with lat_env_var)))) ! i)
        = JStr ''auto''
    \<and> getFanSpeed (hvacs (snd (onMessage conn (Some (scenario_message_with lat_env_var)))) ! i)
        = JStr ''auto''
    \<and> calls (snd (onMessage conn (Some (scenario_message_with lat_env_var))))
        = (if commandCallback conn then calls conn @ [CommandCallback scenario_action]
           else calls conn)"
proof -
  let ?data = "scenario_message_with lat_env_var"
  have guard: "message_guard ?data = Inr True"
    by (simp add: message_guard_def reading_def scenario_message_with_def scenario_action_def)
  have env: "property ?data ''lat_env_var'' = Inr lat_env_var"
    by (simp add: scenario_message_with_def)
  have temp: "property lat_env_var ''temperature'' = Inr (field lat_env_var ''temperature'')"
    using assms(3,4) by (rule property_defined)
  have fields: "field ?data ''mid'' = JStr ''WEB''"
    "field ?data ''action'' = scenario_action"
    "field ?data ''mac_address'' = JStr ''AA:BB:CC:DD:EE:FF''"
    by (simp_all add: field_def scenario_message_with_def)
  have updated: "web_apply scenario_action (JStr ''AA:BB:CC:DD:EE:FF'') (hvacs conn ! i)
      = updateState (hvacs conn ! i) (JStr ''off'') (JStr ''70'') (JStr ''auto'') (JStr ''auto'')"
    using assms(2) by (simp add: web_apply_def field_def scenario_action_def)
  have "onMessage conn (Some ?data)
      = (Inr (), handled conn ?data (field lat_env_var ''temperature''))"
    using guard env temp by (rule onMessage_handled)
  then show ?thesis
    using assms(1) by (simp add: handled_def fields updated updateState_def)
qed

text \<open>
  The amended scenario on the den's connection, and on the same connection built
  without a command callback: the den is switched off in both, and only the first
  records a call.
\<close>

theorem onMessage_scenario_witness:
  "0 < length (hvacs den_conn)
   \<and> getMacAddress (hvacs den_conn ! 0) = JStr ''AA:BB:CC:DD:EE:FF''
   \<and> commandCallback den_conn
   \<and> fst (onMessage den_conn
        (Some (scenario_message_with (JObj [(''temperature'', JStr ''75'')])))) = Inr ()
   \<and> getPower (hvacs (snd (onMessage den_conn
        (Some (scenario_message_with (JObj [(''temperature'', JStr ''75'')]))))) ! 0) = JStr ''off''
   \<and> getTemperature (hvacs (snd (onMessage den_conn
        (Some (scenario_message_with (JObj [(''temperature'', JStr ''75'')]))))) ! 0) = JStr ''70''
   \<and> getMode (hvacs (snd (onMessage den_conn
        (Some (scenario_message_with (JObj [(''temperature'', JStr ''75'')]))))) ! 0) = JStr ''auto''
   \<and> getFanSpeed (hvacs (snd (onMessage den_conn
        (Some (scenario_message_with (JObj [(''temperature'', JStr ''75'')]))))) ! 0) = JStr ''auto''
   \<and> calls (snd (onMessage den_conn
        (Some (scenario_message_with (JObj [(''temperature'', JStr ''75'')])))))
       = [CommandCallback scenario_action]
   \<and> \<not> commandCallback (den_conn\<lparr> commandCallback := False \<rparr>)
   \<and> fst (onMessage (den_conn\<lparr> commandCallback := False \<rparr>)
        (Some (scenario_message_with (JObj [(''temperature'', JStr ''75'')])))) = Inr ()
   \<and> getPower (hvacs (snd (onMessage (den_conn\<lparr> commandCallback := False \<rparr>)
        (Some (scenario_message_with (JObj [(''temperature'', JStr ''75'')]))))) ! 0) = JStr ''off''
   \<and> getTemperature (hvacs (snd (onMessage (den_conn\<lparr> commandCallback := False \<rparr>)
        (Some (scenario_message_with (JObj [(''temperature'', JStr ''75'')]))))) ! 0) = JStr ''70''
   \<and> calls (snd (onMessage (den_conn\<lparr> commandCallback := False \<rparr>)
        (Some (scenario_message_with (JObj [(''temperature'', JStr ''75'')]))))) = []"
proof -
  let ?quiet = "den_conn\<lparr> commandCallback := False \<rparr>"
  have len: "0 < length (hvacs den_conn)"
    and mac: "getMacAddress (hvacs den_conn ! 0) = JStr ''AA:BB:CC:DD:EE:FF''"
    and cb: "commandCallback den_conn"
    and none: "calls den_conn = []"
    by (simp_all add: den_conn_def den_hvac_def)
  have len': "0 < length (hvacs ?quiet)"
    and mac': "getMacAddress (hvacs ?quiet ! 0) = JStr ''AA:BB:CC:DD:EE:FF''"
    and cb': "\<not> commandCallback ?quiet"
    and none': "calls ?quiet = []"
    by (simp_all add: den_conn_def den_hvac_def)
  have env: "JObj [(''temperature'', JStr ''75'')] \<noteq> JUndefined"
    "JObj [(''temperature'', JStr ''75'')] \<noteq> JNull"
    by simp_all
  from onMessage_scenario [OF len mac env] onMessage_scenario [OF len' mac' env]
    len mac cb none cb' none'
  show ?thesis by simp
qed

text \<open>
  C5. For every message the handler is given, on every connection: when the message's
  \<^verbatim>\<open>mid\<close> is \<^verbatim>\<open>"Heartbeat"\<close>, every record has the power, temperature, mode and fan
  speed it had before; when it is \<^verbatim>\<open>"WEB"\<close>, every record has the room temperature
  it had before.
\<close>

theorem onMessage_frame:
  "(property data ''mid'' = Inr (JStr ''Heartbeat'') \<longrightarrow>
      map (\<lambda>hvac. (getPower hvac, getTemperature hvac, getMode hvac, getFanSpeed hvac))
          (hvacs (snd (onMessage conn (Some data))))
        = map (\<lambda>hvac. (getPower hvac, getTemperature hvac, getMode hvac, getFanSpeed hvac))
            (hvacs conn))
   \<and> (property data ''mid'' = Inr (JStr ''WEB'') \<longrightarrow>
      map getRoomTemperature (hvacs (snd (onMessage conn (Some data))))
        = map getRoomTemperature (hvacs conn))"
  using onMessage_heartbeat_state [of data conn] onMessage_web_room [of data conn]
  by (simp add: state_of_def [abs_def])

theorem onMessage_frame_witness:
  "property heartbeat_message ''mid'' = Inr (JStr ''Heartbeat'')
   \<and> map (\<lambda>hvac. (getPower hvac, getTemperature hvac, getMode hvac, getFanSpeed hvac))
        (hvacs (snd (onMessage den_conn (Some heartbeat_message))))
       = [(JStr ''on'', JStr ''72'', JStr ''cool'', JStr ''low'')]
   \<and> map getRoomTemperature (hvacs (snd (onMessage den_conn (Some heartbeat_message))))
       = [JStr ''75'']
   \<and> property (scenario_message_with (JObj [(''temperature'', JStr ''75'')])) ''mid''
       = Inr (JStr ''WEB'')
   \<and> map getRoomTemperature (hvacs (snd (onMessage den_conn
        (Some (scenario_message_with (JObj [(''temperature'', JStr ''75'')]))))))
       = [JStr ''74'']
   \<and> map getPower (hvacs (snd (onMessage den_conn
        (Some (scenario_message_with (JObj [(''temperature'', JStr ''75'')]))))))
       = [JStr ''off'']"
proof -
  have hb: "property heartbeat_message ''mid'' = Inr (JStr ''Heartbeat'')"
    by (simp add: heartbeat_message_def)
  have web: "property (scenario_message_with (JObj [(''temperature'', JStr ''75'')])) ''mid''
      = Inr (JStr ''WEB'')"
    by (simp add: scenario_message_with_def)
  have before: "map (\<lambda>hvac. (getPower hvac, getTemperature hvac, getMode hvac, getFanSpeed hvac))
        (hvacs den_conn) = [(JStr ''on'', JStr ''72'', JStr ''cool'', JStr ''low'')]"
    "map getRoomTemperature (hvacs den_conn) = [JStr ''74'']"
    by (simp_all add: den_conn_def den_hvac_def)
  have room: "map getRoomTemperature (hvacs (snd (onMessage den_conn (Some heartbeat_message))))
      = [JStr ''75'']"
    by (simp add: onMessage_def message_guard_def reading_def heartbeat_message_def
        scenario_action_def heartbeat_update_def updateRoomTemperature_def
        den_conn_def den_hvac_def)
  have off: "map getPower (hvacs (snd (onMessage den_conn
        (Some (scenario_message_with (JObj [(''temperature'', JStr ''75'')]))))))
      = [JStr ''off'']"
    by (simp add: onMessage_def message_guard_def reading_def scenario_message_with_def
        scenario_action_def web_update_def updateState_def den_conn_def den_hvac_def)
  from onMessage_frame [of heartbeat_message den_conn]
    onMessage_frame [of "scenario_message_with (JObj [(''temperature'', JStr ''75'')])" den_conn]
    hb web before room off
  show ?thesis by simp
qed

text \<open>
  C8, as the specification states it, fails: a state-change message for a device that
  is not in the registry, without \<^verbatim>\<open>lat_env_var\<close> as the message of the
  specification's own scenario, makes the handler throw a TypeError.
\<close>

theorem onMessage_unknown_device_throws:
  "property stranger_message ''mac_address'' = Inr (JStr ''11:22:33:44:55:66'')
   \<and> list_all (\<lambda>hvac. \<not> strict_eq (getMacAddress hvac) (JStr ''11:22:33:44:55:66''))
       (hvacs den_conn)
   \<and> fst (onMessage den_conn (Some stranger_message)) = Inl TypeError"
  by (simp add: onMessage_def message_guard_def reading_def stranger_message_def
      scenario_action_def den_conn_def den_hvac_def)

text \<open>
  C8, amended. For every message whose device identifier matches no record of the
  registry, no record is mutated, whatever else the message holds; and no error is
  raised provided the message carries a \<^verbatim>\<open>lat_env_var\<close> sub-object (anything but
  \<^verbatim>\<open>undefined\<close> and \<^verbatim>\<open>null\<close>).
\<close>

theorem onMessage_unknown_device:
  assumes "property data ''mac_address'' = Inr thisMac"
    and "list_all (\<lambda>hvac. \<not> strict_eq (getMacAddress hvac) thisMac) (hvacs conn)"
  shows "hvacs (snd (onMessage conn (Some data))) = hvacs conn
    \<and> (property data ''lat_env_var'' = Inr lat_env_var
         \<and> lat_env_var \<noteq> JUndefined \<and> lat_env_var \<noteq> JNull \<longrightarrow>
       fst (onMessage conn (Some data)) = Inr ())"
  using assms by (simp add: onMessage_unknown_registry onMessage_returns)

theorem onMessage_unknown_device_witness:
  "property (stranger_message_with (JObj [(''temperature'', JStr ''61'')])) ''mac_address''
     = Inr (JStr ''11:22:33:44:55:66'')
   \<and> list_all (\<lambda>hvac. \<not> strict_eq (getMacAddress hvac) (JStr ''11:22:33:44:55:66''))
       (hvacs den_conn)
   \<and> property (stranger_message_with (JObj [(''temperature'', JStr ''61'')])) ''lat_env_var''
     = Inr (JObj [(''temperature'', JStr ''61'')])
   \<and> hvacs (snd (onMessage den_conn
        (Some (stranger_message_with (JObj [(''temperature'', JStr ''61'')]))))) = [den_hvac]
   \<and> fst (onMessage den_conn
        (Some (stranger_message_with (JObj [(''temperature'', JStr ''61'')])))) = Inr ()"
proof -
  let ?data = "stranger_message_with (JObj [(''temperature'', JStr ''61'')])"
  have mac: "property ?data ''mac_address'' = Inr (JStr ''11:22:33:44:55:66'')"
    and env: "property ?data ''lat_env_var'' = Inr (JObj [(''temperature'', JStr ''61'')])"
    by (simp_all add: stranger_message_with_def)
  have unknown: "list_all (\<lambda>hvac. \<not> strict_eq (getMacAddress hvac) (JStr ''11:22:33:44:55:66''))
      (hvacs den_conn)"
    and registry: "hvacs den_conn = [den_hvac]"
    by (simp_all add: den_conn_def den_hvac_def)
  from onMessage_unknown_device [OF mac unknown, of "JObj [(''temperature'', JStr ''61'')]"]
    mac env unknown registry
  show ?thesis by simp
qed

text \<open>
  C10, as stated, fails: a message with a recognized discriminator does not reach the
  callback when it does not pass the handler's guard, or when its \<^verbatim>\<open>lat_env_var\<close>
  cannot be read. A state-change message with every field of the schema and an empty
  \<^verbatim>\<open>message_type\<close> is ignored, and a heartbeat whose \<^verbatim>\<open>lat_env_var\<close> is \<^verbatim>\<open>null\<close> makes
  the handler throw; both callbacks are defined, and neither is invoked.
\<close>

theorem onMessage_callback_not_invoked:
  "property untagged_message ''mid'' = Inr (JStr ''WEB'')
   \<and> commandCallback den_conn
   \<and> onMessage den_conn (Some untagged_message) = (Inr (), den_conn)
   \<and> property heartbeat_without_reading ''mid'' = Inr (JStr ''Heartbeat'')
   \<and> temperatureCallback den_conn
   \<and> onMessage den_conn (Some heartbeat_without_reading) = (Inl TypeError, den_conn)
   \<and> calls den_conn = []"
  by (simp add: onMessage_def message_guard_def reading_def untagged_message_def
      heartbeat_without_reading_def scenario_action_def den_conn_def)

text \<open>
  C10, amended. For every message that passes the handler's guard (a non-empty string
  \<^verbatim>\<open>message_type\<close> and an object \<^verbatim>\<open>action\<close>) and carries a \<^verbatim>\<open>lat_env_var\<close> sub-object,
  whatever the registry holds: when \<^verbatim>\<open>mid\<close> is \<^verbatim>\<open>"WEB"\<close> and a command callback is
  defined, that callback is invoked exactly once, with the action object; when \<^verbatim>\<open>mid\<close>
  is \<^verbatim>\<open>"Heartbeat"\<close> and a temperature callback is defined, that callback is invoked
  exactly once, with the room temperature of the message.
\<close>

theorem onMessage_callbacks:
  assumes "message_guard data = Inr True"
    and "property data ''lat_env_var'' = Inr lat_env_var"
    and "lat_env_var \<noteq> JUndefined" and "lat_env_var \<noteq> JNull"
  shows "(property data ''mid'' = Inr (JStr ''WEB'') \<and> commandCallback conn \<longrightarrow>
            calls (snd (onMessage conn (Some data)))
              = calls conn @ [CommandCallback (field data ''action'')])
    \<and> (property data ''mid'' = Inr (JStr ''Heartbeat'') \<and> temperatureCallback conn \<longrightarrow>
            calls (snd (onMessage conn (Some data)))
              = calls conn @ [TemperatureCallback (field lat_env_var ''temperature'')])"
proof -
  have "onMessage conn (Some data)
      = (Inr (), handled conn data (field lat_env_var ''temperature''))"
    using assms(1,2) property_defined [OF assms(3,4)] by (rule onMessage_handled)
  then show ?thesis
    by (auto simp: handled_def field_def)
qed

theorem onMessage_callbacks_witness:
  "message_guard heartbeat_message = Inr True
   \<and> property heartbeat_message ''lat_env_var'' = Inr (JObj [(''temperature'', JStr ''75'')])
   \<and> property heartbeat_message ''mid'' = Inr (JStr ''Heartbeat'')
   \<and> temperatureCallback den_conn
   \<and> calls (snd (onMessage den_conn (Some heartbeat_message)))
       = [TemperatureCallback (JStr ''75'')]"
proof -
  have guard: "message_guard heartbeat_message = Inr True"
    by (simp add: message_guard_def reading_def heartbeat_message_def scenario_action_def)
  have env: "property heartbeat_message ''lat_env_var'' = Inr (JObj [(''temperature'', JStr ''75'')])"
    and mid: "property heartbeat_message ''mid'' = Inr (JStr ''Heartbeat'')"
    by (simp_all add: heartbeat_message_def)
  have cb: "temperatureCallback den_conn" and none: "calls den_conn = []"
    by (simp_all add: den_conn_def)
  have defined: "JObj [(''temperature'', JStr ''75'')] \<noteq> JUndefined"
    "JObj [(''temperature'', JStr ''75'')] \<noteq> JNull"
    by simp_all
  from onMessage_callbacks [OF guard env defined, of den_conn] guard env mid cb none
  show ?thesis by (simp add: field_def)
qed

end
